theory Spec2Isabelle
  imports Complex_Main "HOL-Library.Word"
begin

unbundle bit_operations_syntax

section \<open>Orientation filter: \<^verbatim>\<open>KF_orientation_unified.cpp\<close>\<close>

text \<open>
  The filter estimates \<^verbatim>\<open>[yaw, yaw_rate]\<close> (the file's own header comment), so
  \<^verbatim>\<open>State::size\<close> is 2: a state vector is a pair, a covariance matrix a pair of rows.
  The C++ type \<^verbatim>\<open>float\<close> is read in two ways. The methods are first embedded with
  exact arithmetic on \<^typ>\<open>real\<close>, the idealisation the formulas of the filter are
  written in. The method \<^verbatim>\<open>update\<close> is embedded a second time with every operation
  rounded to single precision, for the properties that rounding decides. In both, the
  literal \<^verbatim>\<open>1e-6f\<close> has the value the compiler gives it. Overflow, infinities and
  NaN are outside the model.
\<close>

type_synonym vec2 = "real \<times> real"
type_synonym mat2 = "(real \<times> real) \<times> (real \<times> real)"

subsection \<open>The operators of \<^verbatim>\<open>matrix::Matrix\<close> the filter uses\<close>

fun mat_mul :: "mat2 \<Rightarrow> mat2 \<Rightarrow> mat2" where
  "mat_mul ((a11, a12), (a21, a22)) ((b11, b12), (b21, b22)) =
     ((a11 * b11 + a12 * b21, a11 * b12 + a12 * b22),
      (a21 * b11 + a22 * b21, a21 * b12 + a22 * b22))"

fun mat_vec :: "mat2 \<Rightarrow> vec2 \<Rightarrow> vec2" where
  "mat_vec ((a11, a12), (a21, a22)) (x1, x2) = (a11 * x1 + a12 * x2, a21 * x1 + a22 * x2)"



text \<open>A column times a row: the 2x2 outer product.\<close>

fun outer :: "vec2 \<Rightarrow> vec2 \<Rightarrow> mat2" where
  "outer (x1, x2) (y1, y2) = ((x1 * y1, x1 * y2), (x2 * y1, x2 * y2))"

fun transpose_mat :: "mat2 \<Rightarrow> mat2" where
  "transpose_mat ((a11, a12), (a21, a22)) = ((a11, a21), (a12, a22))"

fun mat_sub :: "mat2 \<Rightarrow> mat2 \<Rightarrow> mat2" where
  "mat_sub ((a11, a12), (a21, a22)) ((b11, b12), (b21, b22)) =
     ((a11 - b11, a12 - b12), (a21 - b21, a22 - b22))"

fun vec_add :: "vec2 \<Rightarrow> vec2 \<Rightarrow> vec2" where
  "vec_add (x1, x2) (y1, y2) = (x1 + y1, x2 + y2)"

fun vec_scale :: "vec2 \<Rightarrow> real \<Rightarrow> vec2" where
  "vec_scale (x1, x2) c = (x1 * c, x2 * c)"

fun vec_div :: "vec2 \<Rightarrow> real \<Rightarrow> vec2" where
  "vec_div (x1, x2) c = (x1 / c, x2 / c)"

definition identity_mat :: mat2 where
  "identity_mat = ((1, 0), (0, 1))"

definition zero_mat :: mat2 where
  "zero_mat = ((0, 0), (0, 0))"

fun det :: "mat2 \<Rightarrow> real" where
  "det ((a11, a12), (a21, a22)) = a11 * a22 - a12 * a21"

text \<open>
  Modelled from the spec: \<^verbatim>\<open>matrix::inv\<close> (the matrix library is not among the
  files covered here). Section 4.1 says that resynchronize applies the inverse state-transition
  matrix; for a 2x2 matrix that is the adjugate over the determinant. The result for a
  singular matrix is a choice of this model (the zero matrix); the transition matrix
  below has determinant 1, so that branch is never taken by the filter.
\<close>

fun inv_mat :: "mat2 \<Rightarrow> mat2" where
  "inv_mat ((a11, a12), (a21, a22)) =
     (if det ((a11, a12), (a21, a22)) = 0 then zero_mat
      else ((a22 / det ((a11, a12), (a21, a22)), - a12 / det ((a11, a12), (a21, a22))),
            (- a21 / det ((a11, a12), (a21, a22)), a11 / det ((a11, a12), (a21, a22)))))"

text \<open>
  Modelled from the spec: \<^verbatim>\<open>matrix::wrap_pi\<close> (the matrix library is not among the
  files covered here). Section 3 says that angular components are kept wrapped to the half-open
  interval \<open>(-\<pi>, \<pi>]\<close>: the value returned is the one member of that interval that
  differs from the argument by a whole number of turns.
\<close>

definition wrap_pi :: "real \<Rightarrow> real" where
  "wrap_pi x = x - 2 * pi * of_int \<lceil>(x - pi) / (2 * pi)\<rceil>"

text \<open>
  Modelled from the spec: \<^verbatim>\<open>getPhi\<close> (declared in \<^verbatim>\<open>KF_orientation_unified.h\<close>,
  which is not among the sources). Section 4.2: for orientation, yaw propagates via
  \<^verbatim>\<open>yaw += yaw_rate * dt\<close> and the yaw rate is constant.
\<close>

definition getPhi :: "real \<Rightarrow> mat2" where
  "getPhi dt = ((1, dt), (0, 1))"

subsection \<open>The filter object\<close>

text \<open>
  The literal \<^verbatim>\<open>1e-6f\<close>: the single-precision number nearest to \<open>1 / 10 ^ 6\<close>,
  which lies just below it.
\<close>

definition literal_1e_6f :: real where
  "literal_1e_6f = 8796093 / 2 ^ 43"

record KF_orientation_unified =
  state :: vec2
  sync_state :: vec2
  state_covariance :: mat2
  meas_matrix_row_vect :: vec2
  innov :: real
  innov_cov :: real
  nis_threshold :: real

text \<open>
  The loop \<^verbatim>\<open>for (int i = 0; i < State::size; i++) v(i) = matrix::wrap_pi(v(i))\<close>
  that ends \<^verbatim>\<open>predictState\<close>, \<^verbatim>\<open>update\<close> and \<^verbatim>\<open>syncState\<close>: it wraps every
  component of the vector, the yaw rate as well as the yaw.
\<close>

fun wrap_all :: "vec2 \<Rightarrow> vec2" where
  "wrap_all (x1, x2) = (wrap_pi x1, wrap_pi x2)"

definition predictState :: "real \<Rightarrow> KF_orientation_unified \<Rightarrow> KF_orientation_unified" where
  "predictState dt f =
     (let phi = getPhi dt
      in f\<lparr>state := wrap_all (mat_vec phi (state f))\<rparr>)"

definition predictCov :: "real \<Rightarrow> KF_orientation_unified \<Rightarrow> KF_orientation_unified" where
  "predictCov dt f =
     (let phi = getPhi dt
      in f\<lparr>state_covariance := mat_mul (mat_mul phi (state_covariance f)) (transpose_mat phi)\<rparr>)"

text \<open>\<^verbatim>\<open>update\<close> returns its boolean result together with the filter it leaves behind.\<close>

definition update :: "KF_orientation_unified \<Rightarrow> bool \<times> KF_orientation_unified" where
  "update f =
     (if \<bar>innov_cov f\<bar> < literal_1e_6f then (False, f)
      else
        let beta = innov f / innov_cov f * innov f
        in if beta > nis_threshold f then (False, f)
           else
             let kalmanGain =
                   vec_div (mat_vec (state_covariance f) (meas_matrix_row_vect f)) (innov_cov f);
                 s = wrap_all (vec_add (state f) (vec_scale kalmanGain (innov f)));
                 P = mat_sub (state_covariance f)
                       (mat_mul (outer kalmanGain (meas_matrix_row_vect f)) (state_covariance f))
             in (True, f\<lparr>state := s, state_covariance := P\<rparr>))"

definition syncState :: "real \<Rightarrow> KF_orientation_unified \<Rightarrow> KF_orientation_unified" where
  "syncState dt f =
     (let phi = getPhi dt
      in f\<lparr>sync_state := wrap_all (mat_vec (inv_mat phi) (state f))\<rparr>)"



subsection \<open>\<^verbatim>\<open>update\<close> in single precision\<close>

text \<open>
  Rounding to single precision (binary32), to nearest with ties to even: \<open>fl x\<close> is the
  multiple of the unit in the last place of \<open>x\<close> nearest to \<open>x\<close>. The exponent is
  bounded below (subnormal numbers share the spacing of the smallest normal ones) and
  not above.
\<close>

definition pow2 :: "int \<Rightarrow> real" where
  "pow2 k = (if 0 \<le> k then 2 ^ nat k else 1 / 2 ^ nat (- k))"

definition rne :: "real \<Rightarrow> int" where
  "rne y =
     (let n = \<lfloor>y\<rfloor>
      in if y - of_int n < 1 / 2 then n
         else if 1 / 2 < y - of_int n then n + 1
         else if even n then n else n + 1)"

definition float_exponent :: "real \<Rightarrow> int" where
  "float_exponent x = max (- 126) \<lfloor>log 2 \<bar>x\<bar>\<rfloor>"

definition fl :: "real \<Rightarrow> real" where
  "fl x =
     (if x = 0 then 0
      else of_int (rne (x / pow2 (float_exponent x - 23))) * pow2 (float_exponent x - 23))"

text \<open>
  The matrix operators with a rounding \<open>rnd\<close> after every multiplication, addition,
  subtraction and division. An entry of a product is accumulated from zero in the order
  of the column index, one rounded multiplication and one rounded addition at a time.
\<close>

fun mat_mul_rnd :: "(real \<Rightarrow> real) \<Rightarrow> mat2 \<Rightarrow> mat2 \<Rightarrow> mat2" where
  "mat_mul_rnd rnd ((a11, a12), (a21, a22)) ((b11, b12), (b21, b22)) =
     ((rnd (rnd (a11 * b11) + rnd (a12 * b21)), rnd (rnd (a11 * b12) + rnd (a12 * b22))),
      (rnd (rnd (a21 * b11) + rnd (a22 * b21)), rnd (rnd (a21 * b12) + rnd (a22 * b22))))"

fun mat_vec_rnd :: "(real \<Rightarrow> real) \<Rightarrow> mat2 \<Rightarrow> vec2 \<Rightarrow> vec2" where
  "mat_vec_rnd rnd ((a11, a12), (a21, a22)) (x1, x2) =
     (rnd (rnd (a11 * x1) + rnd (a12 * x2)), rnd (rnd (a21 * x1) + rnd (a22 * x2)))"

fun outer_rnd :: "(real \<Rightarrow> real) \<Rightarrow> vec2 \<Rightarrow> vec2 \<Rightarrow> mat2" where
  "outer_rnd rnd (x1, x2) (y1, y2) =
     ((rnd (x1 * y1), rnd (x1 * y2)), (rnd (x2 * y1), rnd (x2 * y2)))"

fun mat_sub_rnd :: "(real \<Rightarrow> real) \<Rightarrow> mat2 \<Rightarrow> mat2 \<Rightarrow> mat2" where
  "mat_sub_rnd rnd ((a11, a12), (a21, a22)) ((b11, b12), (b21, b22)) =
     ((rnd (a11 - b11), rnd (a12 - b12)), (rnd (a21 - b21), rnd (a22 - b22)))"

fun vec_add_rnd :: "(real \<Rightarrow> real) \<Rightarrow> vec2 \<Rightarrow> vec2 \<Rightarrow> vec2" where
  "vec_add_rnd rnd (x1, x2) (y1, y2) = (rnd (x1 + y1), rnd (x2 + y2))"

fun vec_scale_rnd :: "(real \<Rightarrow> real) \<Rightarrow> vec2 \<Rightarrow> real \<Rightarrow> vec2" where
  "vec_scale_rnd rnd (x1, x2) c = (rnd (x1 * c), rnd (x2 * c))"

text \<open>A vector over a scalar: each component divided by it, one rounding each.\<close>

fun vec_div_rnd :: "(real \<Rightarrow> real) \<Rightarrow> vec2 \<Rightarrow> real \<Rightarrow> vec2" where
  "vec_div_rnd rnd (x1, x2) c = (rnd (x1 / c), rnd (x2 / c))"

text \<open>
  The rewrapping loop: each component becomes its \<^const>\<open>wrap_pi\<close>, rounded. A component
  already in \<open>(-\<pi>, \<pi>]\<close> is left as it is.
\<close>

fun wrap_all_rnd :: "(real \<Rightarrow> real) \<Rightarrow> vec2 \<Rightarrow> vec2" where
  "wrap_all_rnd rnd (x1, x2) = (rnd (wrap_pi x1), rnd (wrap_pi x2))"

text \<open>
  \<^verbatim>\<open>update\<close>, line by line as above, with the rounding \<open>rnd\<close> after every operation.
  The comparisons are exact, as they are on floating-point values.
\<close>

definition update_rnd ::
  "(real \<Rightarrow> real) \<Rightarrow> KF_orientation_unified \<Rightarrow> bool \<times> KF_orientation_unified" where
  "update_rnd rnd f =
     (if \<bar>innov_cov f\<bar> < literal_1e_6f then (False, f)
      else
        let beta = rnd (rnd (innov f / innov_cov f) * innov f)
        in if beta > nis_threshold f then (False, f)
           else
             let kalmanGain =
                   vec_div_rnd rnd (mat_vec_rnd rnd (state_covariance f) (meas_matrix_row_vect f))
                     (innov_cov f);
                 s = wrap_all_rnd rnd
                       (vec_add_rnd rnd (state f) (vec_scale_rnd rnd kalmanGain (innov f)));
                 P = mat_sub_rnd rnd (state_covariance f)
                       (mat_mul_rnd rnd (outer_rnd rnd kalmanGain (meas_matrix_row_vect f))
                          (state_covariance f))
             in (True, f\<lparr>state := s, state_covariance := P\<rparr>))"

definition update_f32 :: "KF_orientation_unified \<Rightarrow> bool \<times> KF_orientation_unified" where
  "update_f32 = update_rnd fl"

subsection \<open>Sequences of calls, and the predicates the properties are stated with\<close>





text \<open>A value in the half-open interval \<open>(-\<pi>, \<pi>]\<close>.\<close>

definition wrapped :: "real \<Rightarrow> bool" where
  "wrapped x \<longleftrightarrow> - pi < x \<and> x \<le> pi"

fun wrapped_vec :: "vec2 \<Rightarrow> bool" where
  "wrapped_vec (x1, x2) \<longleftrightarrow> wrapped x1 \<and> wrapped x2"

text \<open>Two values that are the same angle: equal up to angle wrapping.\<close>

definition same_angle :: "real \<Rightarrow> real \<Rightarrow> bool" where
  "same_angle a b \<longleftrightarrow> wrap_pi a = wrap_pi b"

section \<open>Position estimator: \<^verbatim>\<open>VTEPosition.h\<close>\<close>

type_synonym hrt_abstime = "64 word"
type_synonym vec3 = "real \<times> real \<times> real"

definition target_valid_TIMEOUT_US :: "32 word" where
  "target_valid_TIMEOUT_US = 2000000"

definition measurement_valid_TIMEOUT_US :: "32 word" where
  "measurement_valid_TIMEOUT_US = 1000000"

definition measurement_updated_TIMEOUT_US :: "32 word" where
  "measurement_updated_TIMEOUT_US = 100000"

text \<open>
  \<^verbatim>\<open>hrt_absolute_time()\<close> reads the clock; the reading is the argument \<open>now\<close>. The
  subtraction is the unsigned 64-bit one of the source and wraps around.
\<close>

definition is_meas_valid :: "hrt_abstime \<Rightarrow> hrt_abstime \<Rightarrow> bool" where
  "is_meas_valid now time_stamp \<longleftrightarrow> now - time_stamp < ucast measurement_valid_TIMEOUT_US"

definition is_meas_updated :: "hrt_abstime \<Rightarrow> hrt_abstime \<Rightarrow> bool" where
  "is_meas_updated now time_stamp \<longleftrightarrow> now - time_stamp < ucast measurement_updated_TIMEOUT_US"

datatype ObservationType =
  target_gps_pos | mission_gps_pos | uav_gps_vel | target_gps_vel | fiducial_marker | uwb

text \<open>
  \<^verbatim>\<open>enum ObservationValidMask : uint8_t\<close>: a value of the type is any combination of
  the bits below.
\<close>

type_synonym ObservationValidMask = "8 word"

definition NO_VALID_DATA :: ObservationValidMask where
  "NO_VALID_DATA = 0"

definition FUSE_TARGET_GPS_POS :: ObservationValidMask where
  "FUSE_TARGET_GPS_POS = push_bit 0 1"

definition FUSE_UAV_GPS_VEL :: ObservationValidMask where
  "FUSE_UAV_GPS_VEL = push_bit 1 1"

definition FUSE_EXT_VIS_POS :: ObservationValidMask where
  "FUSE_EXT_VIS_POS = push_bit 2 1"

definition FUSE_MISSION_POS :: ObservationValidMask where
  "FUSE_MISSION_POS = push_bit 3 1"

definition FUSE_TARGET_GPS_VEL :: ObservationValidMask where
  "FUSE_TARGET_GPS_VEL = push_bit 4 1"

definition FUSE_UWB :: ObservationValidMask where
  "FUSE_UWB = push_bit 5 1"

text \<open>
  \<^verbatim>\<open>struct targetObsPos\<close>, without \<^verbatim>\<open>meas_h_xyz\<close>, whose width is the
  \<^verbatim>\<open>vtest::State::size\<close> of a generated header that is not among the sources.
\<close>

record targetObsPos =
  obs_type :: ObservationType
  obs_timestamp :: hrt_abstime
  updated :: bool
  meas_xyz :: vec3
  meas_unc_xyz :: vec3

record vecStamped =
  timestamp :: hrt_abstime
  valid :: bool
  xyz :: vec3

text \<open>
  The members of \<^verbatim>\<open>class VTEPosition\<close> that the functions below read or write.
  Each entry of \<^verbatim>\<open>_target_estimator\<close> points to a \<^verbatim>\<open>KF_position_unified\<close>,
  represented here by the position its state was initialised with (\<open>None\<close> is
  \<^verbatim>\<open>nullptr\<close>). The bias lives inside those filters; following Section 3 of the spec it
  is one vector owned by the estimator.
\<close>

record VTEPosition =
  has_timed_out_field :: bool
  pos_rel_gnss :: vecStamped
  bias_set :: bool
  bias :: vec3
  estimator_initialized :: bool
  target_estimator :: "real option \<times> real option \<times> real option"
  last_predict :: hrt_abstime
  last_update :: hrt_abstime
  vte_TIMEOUT_US :: "32 word"

definition has_timed_out :: "VTEPosition \<Rightarrow> bool" where
  "has_timed_out st = has_timed_out_field st"

definition hasNewNonGpsPositionSensorData :: "ObservationValidMask \<Rightarrow> bool" where
  "hasNewNonGpsPositionSensorData vte_fusion_aid_mask \<longleftrightarrow>
     vte_fusion_aid_mask AND FUSE_EXT_VIS_POS \<noteq> 0 \<or> vte_fusion_aid_mask AND FUSE_UWB \<noteq> 0"

definition hasNewPositionSensorData :: "ObservationValidMask \<Rightarrow> bool" where
  "hasNewPositionSensorData vte_fusion_aid_mask \<longleftrightarrow>
     vte_fusion_aid_mask AND (FUSE_MISSION_POS OR FUSE_TARGET_GPS_POS OR FUSE_EXT_VIS_POS) \<noteq> 0"

definition hasNewVelocitySensorData :: "ObservationValidMask \<Rightarrow> bool" where
  "hasNewVelocitySensorData vte_fusion_aid_mask \<longleftrightarrow>
     vte_fusion_aid_mask AND (FUSE_TARGET_GPS_VEL OR FUSE_UAV_GPS_VEL) \<noteq> 0"

definition should_set_bias :: "hrt_abstime \<Rightarrow> VTEPosition \<Rightarrow> ObservationValidMask \<Rightarrow> bool" where
  "should_set_bias now st vte_fusion_aid_mask \<longleftrightarrow>
     is_meas_valid now (timestamp (pos_rel_gnss st))
     \<and> hasNewNonGpsPositionSensorData vte_fusion_aid_mask"

subsection \<open>Functions whose bodies are in \<^verbatim>\<open>VTEPosition.cpp\<close>\<close>

text \<open>
  Modelled from the spec: the timeout check of a cycle (\<^verbatim>\<open>VTEPosition.cpp\<close> is not
  among the sources). Section 4.5: when the time elapsed since the last successful update
  exceeds the horizon, the estimator is marked timed out; the check never clears the flag.
\<close>

definition check_timeout :: "hrt_abstime \<Rightarrow> VTEPosition \<Rightarrow> VTEPosition" where
  "check_timeout now st =
     (if now - last_update st > ucast (vte_TIMEOUT_US st)
      then st\<lparr>has_timed_out_field := True\<rparr> else st)"

text \<open>
  Modelled from the spec: the part of a cycle (\<^verbatim>\<open>VTEPosition::update\<close>, in
  \<^verbatim>\<open>VTEPosition.cpp\<close>, not among the sources) that touches the timeout state.
  Section 4.4, step 4: the last-update timestamp is set only if at least one fusion
  succeeded this cycle (\<open>fused\<close>); Section 4.5: the timeout check follows the fusion.
\<close>

definition cycle :: "hrt_abstime \<Rightarrow> bool \<Rightarrow> VTEPosition \<Rightarrow> VTEPosition" where
  "cycle now fused st = check_timeout now (if fused then st\<lparr>last_update := now\<rparr> else st)"

fun run_cycles :: "(hrt_abstime \<times> bool) list \<Rightarrow> VTEPosition \<Rightarrow> VTEPosition" where
  "run_cycles [] st = st"
| "run_cycles ((now, fused) # cs) st = run_cycles cs (cycle now fused st)"

text \<open>
  Modelled from the spec: \<^verbatim>\<open>resetFilter\<close> (\<^verbatim>\<open>VTEPosition.cpp\<close> is not among the
  sources). Sections 3 and 4.5: the explicit reset clears the timed-out flag and returns
  the estimator to the uninitialised state.
\<close>

definition resetFilter :: "VTEPosition \<Rightarrow> VTEPosition" where
  "resetFilter st =
     st\<lparr>has_timed_out_field := False, estimator_initialized := False,
        target_estimator := (None, None, None)\<rparr>"

section \<open>Properties of the orientation filter\<close>

subsection \<open>Facts about the building blocks\<close>

lemma wrap_pi_wrapped: "wrapped (wrap_pi x)"
proof -
  define k where "k = \<lceil>(x - pi) / (2 * pi)\<rceil>"
  have up: "(x - pi) / (2 * pi) \<le> of_int k"
    unfolding k_def by (rule le_of_int_ceiling)
  have lo: "of_int k - 1 < (x - pi) / (2 * pi)"
    unfolding k_def by linarith
  have pos: "0 < 2 * pi" by simp
  from up pos have "x - pi \<le> of_int k * (2 * pi)"
    by (simp add: pos_divide_le_eq)
  moreover from lo pos have "(of_int k - 1) * (2 * pi) < x - pi"
    by (simp add: pos_less_divide_eq)
  ultimately show ?thesis
    unfolding wrapped_def wrap_pi_def k_def [symmetric] by (simp add: algebra_simps)
qed

lemma wrap_pi_id:
  assumes "wrapped x"
  shows "wrap_pi x = x"
proof -
  have pos: "0 < 2 * pi" by simp
  from assms have "- 1 < (x - pi) / (2 * pi)" "(x - pi) / (2 * pi) \<le> 0"
    using pos by (simp_all add: wrapped_def pos_less_divide_eq pos_divide_le_eq)
  then have "\<lceil>(x - pi) / (2 * pi)\<rceil> = 0"
    by (simp add: ceiling_eq_iff)
  then show ?thesis by (simp add: wrap_pi_def)
qed

lemma wrap_pi_shift: "wrap_pi (x - 2 * pi * of_int k) = wrap_pi x"
proof -
  have "(x - 2 * pi * of_int k - pi) / (2 * pi) = (x - pi) / (2 * pi) - of_int k"
    by (simp add: field_simps)
  then have "\<lceil>(x - 2 * pi * of_int k - pi) / (2 * pi)\<rceil> = \<lceil>(x - pi) / (2 * pi)\<rceil> - k"
    by simp
  then have "wrap_pi (x - 2 * pi * of_int k) =
      x - 2 * pi * of_int k - 2 * pi * of_int (\<lceil>(x - pi) / (2 * pi)\<rceil> - k)"
    by (simp only: wrap_pi_def)
  also have "\<dots> = wrap_pi x"
    by (simp add: wrap_pi_def algebra_simps)
  finally show ?thesis .
qed

lemma wrap_pi_cancel: "wrap_pi (wrap_pi x - y) = wrap_pi (x - y)"
proof -
  have "wrap_pi x - y = (x - y) - 2 * pi * of_int \<lceil>(x - pi) / (2 * pi)\<rceil>"
    by (simp add: wrap_pi_def)
  then show ?thesis by (simp only: wrap_pi_shift)
qed

lemma wrap_pi_0: "wrap_pi 0 = 0"
  by (rule wrap_pi_id) (simp add: wrapped_def)

lemma wrap_pi_1: "wrap_pi 1 = 1"
  using pi_ge_two by (intro wrap_pi_id) (simp add: wrapped_def)

lemma wrap_pi_half_pi: "wrap_pi (pi / 2) = pi / 2"
  by (rule wrap_pi_id) (simp add: wrapped_def)

lemma wrapped_4_turn: "wrapped (4 - 2 * pi)"
  using pi_ge_two pi_less_4 by (simp add: wrapped_def)

lemma wrap_pi_4: "wrap_pi 4 = 4 - 2 * pi"
proof -
  have "wrap_pi (4 - 2 * pi * of_int 1) = wrap_pi 4"
    by (rule wrap_pi_shift)
  then show ?thesis
    using wrap_pi_id [OF wrapped_4_turn] by simp
qed

lemma wrap_pi_5: "wrap_pi 5 = 5 - 2 * pi"
proof -
  have "wrapped (5 - 2 * pi)"
    using pi_ge_two pi_less_4 by (simp add: wrapped_def)
  moreover have "wrap_pi (5 - 2 * pi * of_int 1) = wrap_pi 5"
    by (rule wrap_pi_shift)
  ultimately show ?thesis
    using wrap_pi_id [of "5 - 2 * pi"] by simp
qed

lemma wrap_pi_3_2: "wrap_pi (3 / 2) = 3 / 2"
  using pi_ge_two by (intro wrap_pi_id) (simp add: wrapped_def)

lemma wrapped_wrap_all: "wrapped_vec (wrap_all v)"
  by (cases v) (simp add: wrap_pi_wrapped)

lemma literal_1e_6f_below: "literal_1e_6f < 1 / 10 ^ 6"
  by (simp add: literal_1e_6f_def)

text \<open>What \<^verbatim>\<open>update\<close> does once both guards have let the measurement through.\<close>

lemma update_accept_eq:
  assumes "\<not> \<bar>innov_cov f\<bar> < literal_1e_6f"
    and "\<not> innov f / innov_cov f * innov f > nis_threshold f"
  shows "update f =
    (True, f\<lparr>state := wrap_all (vec_add (state f)
                 (vec_scale (vec_div (mat_vec (state_covariance f) (meas_matrix_row_vect f))
                               (innov_cov f)) (innov f))),
            state_covariance := mat_sub (state_covariance f)
                 (mat_mul (outer (vec_div (mat_vec (state_covariance f) (meas_matrix_row_vect f))
                               (innov_cov f)) (meas_matrix_row_vect f))
                    (state_covariance f))\<rparr>)"
  using assms by (simp add: update_def Let_def)

lemma innov_sq_nonpos: "S < 0 \<Longrightarrow> v / S * v \<le> (0::real)"
  by (simp add: divide_nonneg_neg mult_nonneg_nonpos2 zero_le_mult_iff mult_le_0_iff
      divide_le_0_iff)

subsection \<open>Single-precision rounding\<close>

lemma pow2_pos: "0 < pow2 k"
  by (simp add: pow2_def)

lemma pow2_powr: "pow2 k = 2 powr of_int k"
proof (cases "0 \<le> k")
  case True
  then have "2 powr real_of_int k = 2 powr real (nat k)"
    by simp
  also have "\<dots> = 2 ^ nat k"
    by (simp add: powr_realpow)
  finally show ?thesis
    using True by (simp add: pow2_def)
next
  case False
  then have "2 powr real_of_int k = 2 powr (- real (nat (- k)))"
    by simp
  also have "\<dots> = 1 / 2 ^ nat (- k)"
    by (simp add: powr_minus powr_realpow divide_inverse)
  finally show ?thesis
    using False by (simp add: pow2_def)
qed

lemma float_exponent_eq:
  assumes "pow2 k \<le> \<bar>x\<bar>" and "\<bar>x\<bar> < pow2 (k + 1)" and "- 126 \<le> k"
  shows "float_exponent x = k"
proof -
  from assms(1) pow2_pos [of k] have pos: "0 < \<bar>x\<bar>"
    by linarith
  have "of_int k \<le> log 2 \<bar>x\<bar>"
    using assms(1) pos by (simp add: pow2_powr le_log_iff)
  moreover have "log 2 \<bar>x\<bar> < of_int k + 1"
    using assms(2) pos by (simp add: pow2_powr log_less_iff add.commute)
  ultimately have "\<lfloor>log 2 \<bar>x\<bar>\<rfloor> = k"
    by (rule floor_unique)
  with assms(3) show ?thesis
    by (simp add: float_exponent_def)
qed

text \<open>How \<open>fl\<close> is computed once the binade of its argument is known.\<close>

lemma fl_eval:
  assumes "pow2 k \<le> \<bar>x\<bar>" and "\<bar>x\<bar> < pow2 (k + 1)" and "- 126 \<le> k"
  shows "fl x = of_int (rne (x / pow2 (k - 23))) * pow2 (k - 23)"
proof -
  from assms(1) pow2_pos [of k] have "x \<noteq> 0"
    by auto
  then show ?thesis
    by (simp add: fl_def float_exponent_eq [OF assms])
qed


text \<open>With no rounding at all, \<^const>\<open>update_rnd\<close> is the exact \<^const>\<open>update\<close>.\<close>

lemma update_rnd_exact: "update_rnd (\<lambda>x. x) f = update f"
proof -
  obtain a b c d where "state_covariance f = ((a, b), (c, d))"
    by (metis prod.exhaust)
  moreover obtain h1 h2 where "meas_matrix_row_vect f = (h1, h2)"
    by (metis prod.exhaust)
  moreover obtain x1 x2 where "state f = (x1, x2)"
    by (metis prod.exhaust)
  ultimately show ?thesis
    by (simp add: update_rnd_def update_def Let_def)
qed

text \<open>The roundings that the examples below go through.\<close>

lemma fl_gate_1: "fl (1 / 7) = 9586981 / 67108864"
  using fl_eval [of "- 3" "1 / 7"] by (simp add: pow2_def rne_def Let_def)

lemma fl_gate_2: "fl (67108865 / 67108864) = 1"
  using fl_eval [of 0 "67108865 / 67108864"] by (simp add: pow2_def rne_def Let_def)

lemma fl_gate_3: "fl (3 / 2) = 3 / 2"
  using fl_eval [of 0 "3 / 2"] by (simp add: pow2_def rne_def Let_def)

lemma fl_gate_4: "fl (201326601 / 67108864) = 12582913 / 4194304"
  using fl_eval [of 1 "201326601 / 67108864"] by (simp add: pow2_def rne_def Let_def)

lemma fl_gate_5: "fl (9 / 2) = 9 / 2"
  using fl_eval [of 2 "9 / 2"] by (simp add: pow2_def rne_def Let_def)

lemma fl_gate_6: "fl (53687092 / 5368709) = 10"
  using fl_eval [of 3 "53687092 / 5368709"] by (simp add: pow2_def rne_def Let_def)

lemma fl_gate_7: "fl (1000000) = 1000000"
  using fl_eval [of 19 "1000000"] by (simp add: pow2_def rne_def Let_def)

lemma fl_gate_8: "fl (8796093022208 / 8796093) = 1000000"
  using fl_eval [of 19 "8796093022208 / 8796093"] by (simp add: pow2_def rne_def Let_def)

lemmas fl_gate = fl_gate_1 fl_gate_2 fl_gate_3 fl_gate_4 fl_gate_5 fl_gate_6 fl_gate_7 fl_gate_8
































subsection \<open>Rejected measurements\<close>

text \<open>
  C1, as amended: \<^verbatim>\<open>update\<close> returns false and changes no field of the filter
  whenever \<open>|S|\<close> is below the value of the literal \<^verbatim>\<open>1e-6f\<close> (\<open>8796093 / 2 ^ 43\<close>,
  a little less than \<open>1e-6\<close>) for the stored innovation covariance \<open>S\<close>, and also
  whenever the gate value the code computes, \<^verbatim>\<open>_innov / _innov_cov * _innov\<close> with the
  quotient and the product each rounded to single precision, exceeds the configured
  threshold.
\<close>

theorem update_f32_rejects_unchanged:
  assumes "\<bar>innov_cov f\<bar> < 8796093 / 2 ^ 43
           \<or> fl (fl (innov f / innov_cov f) * innov f) > nis_threshold f"
  shows "update_f32 f = (False, f)"
  using assms by (auto simp: update_f32_def update_rnd_def literal_1e_6f_def Let_def)

text \<open>
  Two rejected updates: one stopped by the zero-division guard (\<open>S = 1 / 2 ^ 20\<close>), one by
  the gate (the computed value is \<open>9/2\<close>, the threshold \<open>4\<close>).
\<close>

theorem update_f32_rejects_unchanged_witness:
  "update_f32
      \<lparr>state = (1, 0), sync_state = (1, 0), state_covariance = ((1, 0), (0, 1)),
       meas_matrix_row_vect = (1, 0), innov = 1, innov_cov = 1 / 2 ^ 20, nis_threshold = 100\<rparr>
     = (False,
      \<lparr>state = (1, 0), sync_state = (1, 0), state_covariance = ((1, 0), (0, 1)),
       meas_matrix_row_vect = (1, 0), innov = 1, innov_cov = 1 / 2 ^ 20, nis_threshold = 100\<rparr>)
   \<and> update_f32
      \<lparr>state = (1, 0), sync_state = (1, 0), state_covariance = ((1, 0), (0, 1)),
       meas_matrix_row_vect = (1, 0), innov = 3, innov_cov = 2, nis_threshold = 4\<rparr>
     = (False,
      \<lparr>state = (1, 0), sync_state = (1, 0), state_covariance = ((1, 0), (0, 1)),
       meas_matrix_row_vect = (1, 0), innov = 3, innov_cov = 2, nis_threshold = 4\<rparr>)"
  using
    update_f32_rejects_unchanged [of
      "\<lparr>state = (1, 0), sync_state = (1, 0), state_covariance = ((1, 0), (0, 1)),
       meas_matrix_row_vect = (1, 0), innov = 1, innov_cov = 1 / 2 ^ 20, nis_threshold = 100\<rparr>"]
    update_f32_rejects_unchanged [of
      "\<lparr>state = (1, 0), sync_state = (1, 0), state_covariance = ((1, 0), (0, 1)),
       meas_matrix_row_vect = (1, 0), innov = 3, innov_cov = 2, nis_threshold = 4\<rparr>"]
  by (simp add: fl_gate)

text \<open>
  The claim as stated, with the bound \<open>1e-6\<close> and the exact quotient \<open>innovation\<^sup>2 / S\<close>,
  fails twice. With \<open>S\<close> the value of \<^verbatim>\<open>1e-6f\<close>, innovation \<open>1\<close> and threshold
  \<open>4000000\<close>, \<open>|S| < 1e-6\<close> holds, yet the guard lets \<open>S\<close> through, the gate value is
  \<open>1000000\<close> and \<^verbatim>\<open>update\<close> returns true. With innovation \<^verbatim>\<open>0.1f\<close>, \<open>S\<close> the
  value of \<^verbatim>\<open>0.01f\<close> and threshold \<open>1\<close>, the exact quotient exceeds \<open>1\<close>, yet the
  computed gate value is \<open>1\<close> and \<^verbatim>\<open>update\<close> returns true.
\<close>

theorem update_rejects_counterexample:
  "\<bar>8796093 / 2 ^ 43\<bar> < (1 :: real) / 10 ^ 6
   \<and> fst (update_f32
      \<lparr>state = (0, 0), sync_state = (0, 0), state_covariance = ((1, 0), (0, 1)),
       meas_matrix_row_vect = (1, 0), innov = 1, innov_cov = 8796093 / 2 ^ 43, nis_threshold = 4000000\<rparr>)
   \<and> (13421773 / 2 ^ 27)\<^sup>2 / (10737418 / 2 ^ 30) > (1 :: real)
   \<and> fst (update_f32
      \<lparr>state = (0, 0), sync_state = (0, 0), state_covariance = ((1, 0), (0, 1)),
       meas_matrix_row_vect = (1, 0), innov = 13421773 / 2 ^ 27, innov_cov = 10737418 / 2 ^ 30, nis_threshold = 1\<rparr>)"
  by (simp add: update_f32_def update_rnd_def literal_1e_6f_def Let_def fl_gate
      power2_eq_square)

subsection \<open>Accepted measurements\<close>

text \<open>
  In exact arithmetic, when \<open>|S| \<ge> 1e-6\<close> and \<open>innovation\<^sup>2 / S\<close> does not exceed the
  threshold, \<^verbatim>\<open>update\<close> returns true and changes the state and the covariance only.
  With the covariance \<open>P\<close>, the observation row \<open>h\<close> and the Kalman gain
  \<open>K = P h / S\<close>, the new state is \<open>state + K innovation\<close> with each component
  rewrapped, and the new covariance is \<open>P - K h\<^sup>T P\<close>, entry by entry:
\<close>

lemma update_exact_gain_correction:
  assumes "state f = (x1, x2)"
    and "state_covariance f = ((p11, p12), (p21, p22))"
    and "meas_matrix_row_vect f = (h1, h2)"
    and "\<bar>innov_cov f\<bar> \<ge> 1 / 10 ^ 6"
    and "\<not> (innov f)\<^sup>2 / innov_cov f > nis_threshold f"
  shows "let K1 = (p11 * h1 + p12 * h2) / innov_cov f;
             K2 = (p21 * h1 + p22 * h2) / innov_cov f
         in update f =
           (True,
            f\<lparr>state := (wrap_pi (x1 + K1 * innov f), wrap_pi (x2 + K2 * innov f)),
              state_covariance :=
                ((p11 - (K1 * h1 * p11 + K1 * h2 * p21), p12 - (K1 * h1 * p12 + K1 * h2 * p22)),
                 (p21 - (K2 * h1 * p11 + K2 * h2 * p21), p22 - (K2 * h1 * p12 + K2 * h2 * p22)))\<rparr>)"
proof -
  from assms(4) literal_1e_6f_below have "\<not> \<bar>innov_cov f\<bar> < literal_1e_6f"
    by linarith
  moreover from assms(5) have "\<not> innov f / innov_cov f * innov f > nis_threshold f"
    by (simp add: power2_eq_square)
  ultimately have "update f =
    (True, f\<lparr>state := wrap_all (vec_add (state f)
                 (vec_scale (vec_div (mat_vec (state_covariance f) (meas_matrix_row_vect f))
                               (innov_cov f)) (innov f))),
            state_covariance := mat_sub (state_covariance f)
                 (mat_mul (outer (vec_div (mat_vec (state_covariance f) (meas_matrix_row_vect f))
                               (innov_cov f)) (meas_matrix_row_vect f))
                    (state_covariance f))\<rparr>)"
    by (rule update_accept_eq)
  then show ?thesis
    by (simp add: assms(1,2,3) Let_def)
qed

text \<open>
  For instance, from the state \<open>(17/4, 1/2)\<close> with covariance \<open>((2, 1), (1, 3))\<close>,
  observation row \<open>(1, 1)\<close>, innovation \<open>2\<close> and \<open>S = 8\<close>: the gain is
  \<open>(3/8, 1/2)\<close>, the corrected yaw \<open>5\<close> is rewrapped to \<open>5 - 2\<pi>\<close>.
\<close>

lemma update_exact_gain_correction_example:
  "update
      \<lparr>state = (17 / 4, 1 / 2), sync_state = (17 / 4, 1 / 2), state_covariance = ((2, 1), (1, 3)),
       meas_matrix_row_vect = (1, 1), innov = 2, innov_cov = 8, nis_threshold = 4\<rparr>
     = (True,
      \<lparr>state = (5 - 2 * pi, 3 / 2), sync_state = (17 / 4, 1 / 2), state_covariance = ((7 / 8, - 1 / 2), (- 1 / 2, 1)),
       meas_matrix_row_vect = (1, 1), innov = 2, innov_cov = 8, nis_threshold = 4\<rparr>)"
  using update_exact_gain_correction [of
      "\<lparr>state = (17 / 4, 1 / 2), sync_state = (17 / 4, 1 / 2), state_covariance = ((2, 1), (1, 3)),
       meas_matrix_row_vect = (1, 1), innov = 2, innov_cov = 8, nis_threshold = 4\<rparr>"
      "17 / 4" "1 / 2" 2 1 1 3 1 1]
  by (simp add: Let_def wrap_pi_5 wrap_pi_3_2)




text \<open>
  C10: with a nonnegative threshold, a negative stored innovation covariance \<open>S\<close> of
  magnitude at least \<open>1e-6\<close> is always accepted: the guard looks at \<open>|S|\<close> only, the
  gate value \<open>innovation\<^sup>2 / S\<close> is at most zero, and the correction is applied with the
  gain \<open>P h / S\<close> divided by that negative \<open>S\<close>.
\<close>

theorem update_negative_innov_cov:
  assumes "0 \<le> nis_threshold f" and "innov_cov f < 0" and "\<bar>innov_cov f\<bar> \<ge> 1 / 10 ^ 6"
  shows "(innov f)\<^sup>2 / innov_cov f \<le> 0
         \<and> update f =
           (True, f\<lparr>state := wrap_all (vec_add (state f)
                      (vec_scale (vec_div (mat_vec (state_covariance f) (meas_matrix_row_vect f))
                                    (innov_cov f)) (innov f))),
                    state_covariance := mat_sub (state_covariance f)
                      (mat_mul (outer (vec_div (mat_vec (state_covariance f) (meas_matrix_row_vect f))
                                    (innov_cov f)) (meas_matrix_row_vect f))
                         (state_covariance f))\<rparr>)"
proof
  have beta: "innov f / innov_cov f * innov f \<le> 0"
    using assms(2) by (rule innov_sq_nonpos)
  then show "(innov f)\<^sup>2 / innov_cov f \<le> 0"
    by (simp add: power2_eq_square)
  from beta assms(1) have "\<not> innov f / innov_cov f * innov f > nis_threshold f"
    by linarith
  moreover from assms(3) literal_1e_6f_below have "\<not> \<bar>innov_cov f\<bar> < literal_1e_6f"
    by linarith
  ultimately show "update f =
           (True, f\<lparr>state := wrap_all (vec_add (state f)
                      (vec_scale (vec_div (mat_vec (state_covariance f) (meas_matrix_row_vect f))
                                    (innov_cov f)) (innov f))),
                    state_covariance := mat_sub (state_covariance f)
                      (mat_mul (outer (vec_div (mat_vec (state_covariance f) (meas_matrix_row_vect f))
                                    (innov_cov f)) (meas_matrix_row_vect f))
                         (state_covariance f))\<rparr>)"
    by (simp add: update_accept_eq)
qed

text \<open>
  The accepted update above with \<open>S = -2\<close> in place of \<open>2\<close>: the gain is \<open>(-1/2, 0)\<close>,
  the yaw moves away from the measurement (to \<open>0\<close>) and its variance grows to \<open>3/2\<close>.
\<close>

theorem update_negative_innov_cov_witness:
  "update \<lparr>state = (1 / 2, 0), sync_state = (1 / 2, 0), state_covariance = ((1, 0), (0, 1)),
           meas_matrix_row_vect = (1, 0), innov = 1, innov_cov = - 2, nis_threshold = 4\<rparr>
     = (True, \<lparr>state = (0, 0), sync_state = (1 / 2, 0),
           state_covariance = ((3 / 2, 0), (0, 1)),
           meas_matrix_row_vect = (1, 0), innov = 1, innov_cov = - 2, nis_threshold = 4\<rparr>)"
  using update_negative_innov_cov [of "\<lparr>state = (1 / 2, 0), sync_state = (1 / 2, 0),
      state_covariance = ((1, 0), (0, 1)), meas_matrix_row_vect = (1, 0), innov = 1,
      innov_cov = - 2, nis_threshold = 4\<rparr>"]
  by (simp add: wrap_pi_0)

subsection \<open>Covariance prediction\<close>

text \<open>
  C9: \<^verbatim>\<open>predictCov\<close> replaces the covariance \<open>P\<close> by exactly
  \<open>\<Phi>(dt) P \<Phi>(dt)\<^sup>T\<close> and changes nothing else; no process-noise term is added.
  Entry by entry, for the transition matrix of the orientation filter, the yaw-rate
  variance is untouched, and a prediction over \<open>dt = 0\<close> leaves the filter as it is.
\<close>

theorem predictCov_no_process_noise:
  "predictCov dt f =
     f\<lparr>state_covariance :=
         mat_mul (mat_mul (getPhi dt) (state_covariance f)) (transpose_mat (getPhi dt))\<rparr>
   \<and> state_covariance (predictCov dt f) =
       (case state_covariance f of
          ((a, b), (c, d)) \<Rightarrow> ((a + dt * c + (b + dt * d) * dt, b + dt * d), (c + d * dt, d)))
   \<and> predictCov 0 f = f"
  by (cases "state_covariance f" rule: prod.exhaust)
     (auto simp: predictCov_def getPhi_def Let_def)

subsection \<open>Symmetry of the covariance\<close>












subsection \<open>Angle wrapping\<close>

text \<open>
  C6: every component of the state that \<^verbatim>\<open>predictState\<close> or a successful
  \<^verbatim>\<open>update\<close> leaves behind, and every component of the synced state that
  \<^verbatim>\<open>syncState\<close> (resynchronize) produces, lies in \<open>(-\<pi>, \<pi>]\<close>, for every filter and
  every \<open>dt\<close>.
\<close>

theorem angles_wrapped:
  "wrapped_vec (state (predictState dt f))
   \<and> wrapped_vec (sync_state (syncState dt f))
   \<and> (fst (update f) \<longrightarrow> wrapped_vec (state (snd (update f))))"
  by (auto simp: predictState_def syncState_def update_def Let_def wrapped_wrap_all)

text \<open>A filter whose yaw \<open>3\<close> is pushed past \<open>\<pi>\<close> by the prediction and by the update.\<close>

theorem angles_wrapped_witness:
  "wrapped_vec (state (predictState 1
      \<lparr>state = (3, 2), sync_state = (0, 0), state_covariance = ((1, 0), (0, 1)),
       meas_matrix_row_vect = (1, 0), innov = 7, innov_cov = 2, nis_threshold = 100\<rparr>))
   \<and> wrapped_vec (sync_state (syncState 1
      \<lparr>state = (3, 2), sync_state = (0, 0), state_covariance = ((1, 0), (0, 1)),
       meas_matrix_row_vect = (1, 0), innov = 7, innov_cov = 2, nis_threshold = 100\<rparr>))
   \<and> fst (update
      \<lparr>state = (3, 2), sync_state = (0, 0), state_covariance = ((1, 0), (0, 1)),
       meas_matrix_row_vect = (1, 0), innov = 7, innov_cov = 2, nis_threshold = 100\<rparr>)
   \<and> wrapped_vec (state (snd (update
      \<lparr>state = (3, 2), sync_state = (0, 0), state_covariance = ((1, 0), (0, 1)),
       meas_matrix_row_vect = (1, 0), innov = 7, innov_cov = 2, nis_threshold = 100\<rparr>)))"
  using angles_wrapped [of 1 "\<lparr>state = (3, 2), sync_state = (0, 0),
      state_covariance = ((1, 0), (0, 1)), meas_matrix_row_vect = (1, 0), innov = 7,
      innov_cov = 2, nis_threshold = 100\<rparr>"]
  by (simp add: update_def literal_1e_6f_def Let_def)

subsection \<open>Prediction followed by resynchronisation\<close>

lemma getPhi_inverse:
  "mat_mul (inv_mat (getPhi dt)) (getPhi dt) = identity_mat"
  "mat_mul (getPhi dt) (inv_mat (getPhi dt)) = identity_mat"
  by (simp_all add: getPhi_def identity_mat_def)

lemma roundtrip_wrapped_rate:
  assumes "wrapped r"
  shows "wrap_all (mat_vec (inv_mat (getPhi dt)) (wrap_all (mat_vec (getPhi dt) (y, r))))
         = (wrap_pi y, r)"
proof -
  have r: "wrap_pi r = r"
    using assms by (rule wrap_pi_id)
  have "wrap_pi (wrap_pi (y + dt * r) - dt * r) = wrap_pi (y + dt * r - dt * r)"
    by (rule wrap_pi_cancel)
  then show ?thesis
    by (simp add: getPhi_def r)
qed

lemma half_pi_not_zero_angle: "\<not> same_angle (pi / 2) 0"
  by (simp add: same_angle_def wrap_pi_half_pi wrap_pi_0)

text \<open>
  C5, as amended: \<open>\<Phi>(dt)\<close> is invertible for every \<open>dt\<close> and \<open>\<Phi>(0)\<close> is the identity;
  for a filter whose yaw rate lies in \<open>(-\<pi>, \<pi>]\<close>, \<^verbatim>\<open>syncState\<close> after
  \<^verbatim>\<open>predictState\<close> with the same \<open>dt\<close> yields the synced state
  \<open>(wrap_pi yaw, yaw_rate)\<close>: the state before the prediction, up to the wrapping of the
  yaw. As stated, for every filter state, the claim fails, since \<^verbatim>\<open>predictState\<close>
  wraps the yaw rate as well, and a rate outside \<open>(-\<pi>, \<pi>]\<close> is not recovered.
\<close>

theorem resynchronize_roundtrip:
  assumes "wrapped (snd (state f))"
  shows "mat_mul (inv_mat (getPhi dt)) (getPhi dt) = identity_mat
         \<and> mat_mul (getPhi dt) (inv_mat (getPhi dt)) = identity_mat
         \<and> getPhi 0 = identity_mat
         \<and> sync_state (syncState dt (predictState dt f)) = (wrap_pi (fst (state f)), snd (state f))
         \<and> same_angle (fst (sync_state (syncState dt (predictState dt f)))) (fst (state f))"
proof -
  obtain y r where yr: "state f = (y, r)"
    by (metis prod.exhaust)
  with assms have "wrapped r"
    by simp
  then have rt: "sync_state (syncState dt (predictState dt f)) = (wrap_pi y, r)"
    by (simp add: syncState_def predictState_def Let_def yr roundtrip_wrapped_rate)
  have "wrap_pi (wrap_pi y) = wrap_pi y"
    by (rule wrap_pi_id) (rule wrap_pi_wrapped)
  with rt show ?thesis
    by (simp add: yr getPhi_inverse same_angle_def) (simp add: getPhi_def identity_mat_def)
qed

text \<open>Yaw \<open>4\<close> (outside the interval) and yaw rate \<open>1\<close>, a quarter of a second.\<close>

theorem resynchronize_roundtrip_witness:
  "sync_state (syncState (1 / 4) (predictState (1 / 4)
      \<lparr>state = (4, 1), sync_state = (0, 0), state_covariance = ((1, 0), (0, 1)),
       meas_matrix_row_vect = (1, 0), innov = 0, innov_cov = 1, nis_threshold = 4\<rparr>))
     = (4 - 2 * pi, 1)"
  using resynchronize_roundtrip [of "\<lparr>state = (4, 1), sync_state = (0, 0),
      state_covariance = ((1, 0), (0, 1)), meas_matrix_row_vect = (1, 0), innov = 0,
      innov_cov = 1, nis_threshold = 4\<rparr>" "1 / 4"] pi_ge_two
  by (simp add: wrapped_def wrap_pi_4)

text \<open>
  The claim as stated fails at yaw \<open>0\<close>, yaw rate \<open>4\<close> and \<open>dt = 1/4\<close>: the prediction
  gives \<open>(1, 4 - 2\<pi>)\<close>, and resynchronising that gives the yaw \<open>\<pi>/2\<close>, which is not
  the angle \<open>0\<close> the filter started from.
\<close>

theorem resynchronize_roundtrip_counterexample:
  "(0 :: real) \<le> 1 / 4
   \<and> sync_state (syncState (1 / 4) (predictState (1 / 4)
      \<lparr>state = (0, 4), sync_state = (0, 0), state_covariance = ((1, 0), (0, 1)),
       meas_matrix_row_vect = (1, 0), innov = 0, innov_cov = 1, nis_threshold = 4\<rparr>))
     = (pi / 2, 4 - 2 * pi)
   \<and> \<not> same_angle (pi / 2) 0"
proof -
  have "wrap_pi (1 - (4 - 2 * pi) / 4) = pi / 2"
    using wrap_pi_half_pi by (simp add: field_simps)
  moreover have "wrap_pi (4 - 2 * pi) = 4 - 2 * pi"
    using wrapped_4_turn by (rule wrap_pi_id)
  ultimately show ?thesis
    by (simp add: syncState_def predictState_def Let_def getPhi_def wrap_pi_1 wrap_pi_4
        half_pi_not_zero_angle)
qed

section \<open>Properties of the position estimator\<close>

lemmas mask_defs =
  FUSE_TARGET_GPS_POS_def FUSE_UAV_GPS_VEL_def FUSE_EXT_VIS_POS_def FUSE_MISSION_POS_def
  FUSE_TARGET_GPS_VEL_def FUSE_UWB_def

subsection \<open>The predicates on the validity mask\<close>

lemma hasNewPositionSensorData_bits:
  "hasNewPositionSensorData m \<longleftrightarrow>
     m AND FUSE_MISSION_POS \<noteq> 0 \<or> m AND FUSE_TARGET_GPS_POS \<noteq> 0
     \<or> m AND FUSE_EXT_VIS_POS \<noteq> 0"
  by (auto simp: hasNewPositionSensorData_def bit.conj_disj_distrib or_eq_0_iff)

text \<open>
  UWB is position data for \<^verbatim>\<open>_hasNewNonGpsPositionSensorData\<close> and is not looked at
  by \<^verbatim>\<open>_hasNewPositionSensorData\<close>.
\<close>

lemma uwb_is_position_data: "hasNewNonGpsPositionSensorData FUSE_UWB"
  by (simp add: hasNewNonGpsPositionSensorData_def mask_defs)

lemma uwb_not_looked_at: "\<not> hasNewPositionSensorData FUSE_UWB"
  by (simp add: hasNewPositionSensorData_def mask_defs)

subsection \<open>Bias\<close>

text \<open>A measurement is valid for one second after its timestamp.\<close>

lemma is_meas_valid_window: "is_meas_valid now ts \<longleftrightarrow> now - ts < 1000000"
  by (simp add: is_meas_valid_def measurement_valid_TIMEOUT_US_def)

text \<open>The \<^verbatim>\<open>valid\<close> flag of \<^verbatim>\<open>_pos_rel_gnss\<close> plays no part in the test.\<close>

lemma should_set_bias_ignores_valid_flag:
  "should_set_bias now (st\<lparr>pos_rel_gnss := (pos_rel_gnss st)\<lparr>valid := v\<rparr>\<rparr>) m
     = should_set_bias now st m"
  by (simp add: should_set_bias_def)


subsection \<open>Timeout\<close>

lemma has_timed_out_cycle:
  "has_timed_out (cycle now fused st) \<longleftrightarrow>
     has_timed_out st \<or> now - (if fused then now else last_update st) > ucast (vte_TIMEOUT_US st)"
  by (simp add: has_timed_out_def cycle_def check_timeout_def)

lemma has_timed_out_run:
  "has_timed_out st \<Longrightarrow> has_timed_out (run_cycles cs st)"
  by (induction cs arbitrary: st) (auto simp: has_timed_out_cycle)

text \<open>
  C8: a cycle marks the estimator timed out exactly when the time elapsed since the last
  successful update exceeds the configured horizon; once set, \<^verbatim>\<open>has_timed_out\<close>
  reports true after every further sequence of cycles, whatever they fuse; the explicit
  reset clears it.
\<close>

theorem timed_out_latches:
  "(has_timed_out (cycle now fused st) \<longleftrightarrow>
      has_timed_out st
      \<or> now - (if fused then now else last_update st) > ucast (vte_TIMEOUT_US st))
   \<and> (has_timed_out st \<longrightarrow> has_timed_out (run_cycles cs st))
   \<and> \<not> has_timed_out (resetFilter st)"
  by (simp add: has_timed_out_cycle has_timed_out_run) (simp add: has_timed_out_def resetFilter_def)

text \<open>
  Last update at 0.5 s, horizon 3 s: the cycle at 4 s times out, and the flag survives a
  cycle that fuses at 4.1 s and an idle one at 4.2 s.
\<close>

theorem timed_out_latches_witness:
  "has_timed_out (cycle 4000000 False
      \<lparr>has_timed_out_field = False,
       pos_rel_gnss = \<lparr>timestamp = 0, valid = False, xyz = (0, 0, 0)\<rparr>,
       bias_set = False, bias = (0, 0, 0), estimator_initialized = True,
       target_estimator = (Some 0, Some 0, Some 0), last_predict = 500000,
       last_update = 500000, vte_TIMEOUT_US = 3000000\<rparr>)
   \<and> has_timed_out (run_cycles [(4100000, True), (4200000, False)] (cycle 4000000 False
      \<lparr>has_timed_out_field = False,
       pos_rel_gnss = \<lparr>timestamp = 0, valid = False, xyz = (0, 0, 0)\<rparr>,
       bias_set = False, bias = (0, 0, 0), estimator_initialized = True,
       target_estimator = (Some 0, Some 0, Some 0), last_predict = 500000,
       last_update = 500000, vte_TIMEOUT_US = 3000000\<rparr>))"
  using timed_out_latches [of 4000000 False "cycle 4000000 False
      \<lparr>has_timed_out_field = False,
       pos_rel_gnss = \<lparr>timestamp = 0, valid = False, xyz = (0, 0, 0)\<rparr>,
       bias_set = False, bias = (0, 0, 0), estimator_initialized = True,
       target_estimator = (Some 0, Some 0, Some 0), last_predict = 500000,
       last_update = 500000, vte_TIMEOUT_US = 3000000\<rparr>" "[(4100000, True), (4200000, False)]"]
  by (simp add: has_timed_out_def cycle_def check_timeout_def)

end
